theory Spec2Isabelle
  imports Main "HOL-Library.Word"
begin

section \<open>The FIPS service indicator (crypto/fipsmodule/service\_indicator/service\_indicator.c)\<close>

text \<open>
  A shallow embedding of the service indicator of AWS-LC. The C functions read and
  write one thread's indicator record through a pointer kept in thread-local storage and
  may leave entries on the thread's error queue; the model passes both explicitly as a
  \<open>thread_state\<close>. A call of \<open>abort()\<close> is the result \<open>Inl Abort\<close>.
  The two collaborators whose outcome the code cannot control (\<open>OPENSSL_malloc\<close>
  and \<open>CRYPTO_set_thread_local\<close>) are an \<open>alloc_env\<close> given to every call.
\<close>

subsection \<open>The indicator record, the thread and its error queue\<close>

type_synonym uint64_t = "64 word"

definition STATE_UNLOCKED :: uint64_t where
  "STATE_UNLOCKED = 0"

text \<open>\<open>struct fips_service_indicator_state\<close>, lines 26-33.\<close>

record fips_service_indicator_state =
  lock_state :: uint64_t
  counter :: uint64_t

text \<open>
  An entry of the error queue is the pair (library, reason) that \<open>OPENSSL_PUT_ERROR\<close>
  records. Only the two reasons the file itself raises are named; everything an
  accessor of another module may raise is \<open>ERR_R_other\<close>. The queue holds what
  this file and the accessors of a context put on it; what the allocator may record on
  its own is left out.
\<close>

datatype err_lib = ERR_LIB_CRYPTO | ERR_LIB_other nat

datatype err_reason = ERR_R_MALLOC_FAILURE | ERR_R_INTERNAL_ERROR | ERR_R_other nat

type_synonym err_entry = "err_lib \<times> err_reason"

text \<open>
  What one thread owns: the slot \<open>AWSLC_THREAD_LOCAL_FIPS_SERVICE_INDICATOR_STATE\<close> of
  its thread-local storage (\<open>None\<close> is the NULL pointer of a thread that has no
  indicator yet) and its error queue.
\<close>

record thread_state =
  thread_local :: "fips_service_indicator_state option"
  err_queue :: "err_entry list"

text \<open>
  The outcome of the two fallible collaborators of \<open>service_indicator_get\<close>:
  whether \<open>OPENSSL_malloc\<close> returns a block and whether
  \<open>CRYPTO_set_thread_local\<close> returns 1.
\<close>

record alloc_env =
  malloc_ok :: bool
  set_thread_local_ok :: bool

datatype fault = Abort

definition OPENSSL_PUT_ERROR :: "err_lib \<Rightarrow> err_reason \<Rightarrow> thread_state \<Rightarrow> thread_state" where
  "OPENSSL_PUT_ERROR lib reason s = s\<lparr>err_queue := err_queue s @ [(lib, reason)]\<rparr>"

definition ERR_clear_error :: "thread_state \<Rightarrow> thread_state" where
  "ERR_clear_error s = s\<lparr>err_queue := []\<rparr>"

subsection \<open>The store and the counter protocol (lines 41-126)\<close>

text \<open>
  \<open>service_indicator_get\<close>, lines 41-64. The result is the pointer the C function
  returns (\<open>None\<close> for NULL) and the thread as the call leaves it. A block whose
  registration fails is released by the collaborator, so the slot stays empty.
\<close>

definition service_indicator_get ::
  "alloc_env \<Rightarrow> thread_state \<Rightarrow> fips_service_indicator_state option \<times> thread_state" where
  "service_indicator_get env s =
     (case thread_local s of
        Some indicator \<Rightarrow> (Some indicator, s)
      | None \<Rightarrow>
          if \<not> malloc_ok env then (None, OPENSSL_PUT_ERROR ERR_LIB_CRYPTO ERR_R_MALLOC_FAILURE s)
          else
            let indicator = \<lparr>lock_state = STATE_UNLOCKED, counter = 0\<rparr> in
            if \<not> set_thread_local_ok env
            then (None, OPENSSL_PUT_ERROR ERR_LIB_CRYPTO ERR_R_INTERNAL_ERROR s)
            else (Some indicator, s\<lparr>thread_local := Some indicator\<rparr>))"

text \<open>\<open>service_indicator_get_counter\<close>, lines 66-72.\<close>

definition service_indicator_get_counter :: "alloc_env \<Rightarrow> thread_state \<Rightarrow> uint64_t \<times> thread_state" where
  "service_indicator_get_counter env s =
     (case service_indicator_get env s of
        (None, s') \<Rightarrow> (0, s')
      | (Some indicator, s') \<Rightarrow> (counter indicator, s'))"

text \<open>Lines 74-80.\<close>

definition FIPS_service_indicator_before_call :: "alloc_env \<Rightarrow> thread_state \<Rightarrow> uint64_t \<times> thread_state" where
  "FIPS_service_indicator_before_call env s = service_indicator_get_counter env s"

definition FIPS_service_indicator_after_call :: "alloc_env \<Rightarrow> thread_state \<Rightarrow> uint64_t \<times> thread_state" where
  "FIPS_service_indicator_after_call env s = service_indicator_get_counter env s"

text \<open>
  \<open>FIPS_service_indicator_update_state\<close>, lines 82-87. The write goes through the
  pointer, that is, into the thread-local slot. \<open>counter++\<close> is the addition of
  \<open>64 word\<close>, which wraps.
\<close>

definition FIPS_service_indicator_update_state :: "alloc_env \<Rightarrow> thread_state \<Rightarrow> thread_state" where
  "FIPS_service_indicator_update_state env s =
     (case service_indicator_get env s of
        (None, s') \<Rightarrow> s'
      | (Some indicator, s') \<Rightarrow>
          if lock_state indicator = STATE_UNLOCKED
          then s'\<lparr>thread_local := Some (indicator\<lparr>counter := counter indicator + 1\<rparr>)\<rparr>
          else s')"

text \<open>\<open>FIPS_service_indicator_lock_state\<close>, lines 94-113.\<close>

definition FIPS_service_indicator_lock_state :: "alloc_env \<Rightarrow> thread_state \<Rightarrow> fault + thread_state" where
  "FIPS_service_indicator_lock_state env s =
     (case service_indicator_get env s of
        (None, s') \<Rightarrow> Inr s'
      | (Some indicator, s') \<Rightarrow>
          let new_state = lock_state indicator + 1 in
          if new_state < lock_state indicator then Inl Abort
          else Inr (s'\<lparr>thread_local := Some (indicator\<lparr>lock_state := new_state\<rparr>)\<rparr>))"

text \<open>\<open>FIPS_service_indicator_unlock_state\<close>, lines 115-126.\<close>

definition FIPS_service_indicator_unlock_state :: "alloc_env \<Rightarrow> thread_state \<Rightarrow> fault + thread_state" where
  "FIPS_service_indicator_unlock_state env s =
     (case service_indicator_get env s of
        (None, s') \<Rightarrow> Inr s'
      | (Some indicator, s') \<Rightarrow>
          if lock_state indicator = 0 then Inl Abort
          else Inr (s'\<lparr>thread_local := Some (indicator\<lparr>lock_state := lock_state indicator - 1\<rparr>)\<rparr>))"

text \<open>
  The build without \<open>AWSLC_FIPS\<close>, lines 369-376: the same two names, compiled from
  the other branch of the preprocessor conditional. They touch no state.
\<close>

definition FIPS_service_indicator_before_call_nofips :: "thread_state \<Rightarrow> uint64_t \<times> thread_state" where
  "FIPS_service_indicator_before_call_nofips s = (0, s)"

definition FIPS_service_indicator_after_call_nofips :: "thread_state \<Rightarrow> uint64_t \<times> thread_state" where
  "FIPS_service_indicator_after_call_nofips s = (1, s)"

subsection \<open>Identifiers and operation contexts\<close>

text \<open>
  Modelled from the spec: the numeric identifiers the predicates compare against
  (digests, curves, padding modes, key types, cipher modes; section 4.5 of the spec names
  them) are macros of the library's public headers, outside the file modelled here.
  They are given the values of those headers; the proofs below use nothing of them but
  that different names are different numbers, which a C \<open>switch\<close> needs of its
  labels as well.
\<close>

definition NID_md5 :: int where "NID_md5 = 4"
definition NID_sha1 :: int where "NID_sha1 = 64"
definition NID_md5_sha1 :: int where "NID_md5_sha1 = 114"
definition NID_sha224 :: int where "NID_sha224 = 675"
definition NID_sha256 :: int where "NID_sha256 = 672"
definition NID_sha384 :: int where "NID_sha384 = 673"
definition NID_sha512 :: int where "NID_sha512 = 674"

definition NID_secp224r1 :: int where "NID_secp224r1 = 713"
definition NID_X9_62_prime256v1 :: int where "NID_X9_62_prime256v1 = 415"
definition NID_secp384r1 :: int where "NID_secp384r1 = 715"
definition NID_secp521r1 :: int where "NID_secp521r1 = 716"

definition NID_aes_128_ecb :: int where "NID_aes_128_ecb = 418"
definition NID_aes_192_ecb :: int where "NID_aes_192_ecb = 422"
definition NID_aes_256_ecb :: int where "NID_aes_256_ecb = 426"
definition NID_aes_128_cbc :: int where "NID_aes_128_cbc = 419"
definition NID_aes_192_cbc :: int where "NID_aes_192_cbc = 423"
definition NID_aes_256_cbc :: int where "NID_aes_256_cbc = 427"
definition NID_aes_128_ctr :: int where "NID_aes_128_ctr = 904"
definition NID_aes_192_ctr :: int where "NID_aes_192_ctr = 905"
definition NID_aes_256_ctr :: int where "NID_aes_256_ctr = 906"

definition EVP_PKEY_RSA :: int where "EVP_PKEY_RSA = 6"
definition EVP_PKEY_RSA_PSS :: int where "EVP_PKEY_RSA_PSS = 912"
definition EVP_PKEY_EC :: int where "EVP_PKEY_EC = 408"

definition RSA_PKCS1_PADDING :: int where "RSA_PKCS1_PADDING = 1"
definition RSA_PKCS1_PSS_PADDING :: int where "RSA_PKCS1_PSS_PADDING = 6"

text \<open>
  Modelled from the spec: the context structures and their read-only accessors belong to
  the primitive implementations, outside the file modelled here. A context is the record of the
  resolved parameters the accessors hand out (the spec's OperationContext: key length,
  tag length, digest identifier, curve identifier, modulus size in bytes, padding mode,
  PSS salt length, MGF1 digest, cipher NID). A value of type \<open>size_t\<close> is a
  \<open>nat\<close>, a C \<open>int\<close> an \<open>int\<close>: the code only compares them, but for
  one cast.
\<close>

record EVP_AEAD =
  aead_key_len :: nat

record EVP_AEAD_CTX =
  aead :: EVP_AEAD
  tag_len :: nat

definition EVP_AEAD_key_length :: "EVP_AEAD \<Rightarrow> nat" where
  "EVP_AEAD_key_length a = aead_key_len a"

record EVP_CIPHER_CTX =
  cipher_nid :: int
  key_len :: nat

definition EVP_CIPHER_CTX_nid :: "EVP_CIPHER_CTX \<Rightarrow> int" where
  "EVP_CIPHER_CTX_nid c = cipher_nid c"

record CMAC_CTX =
  cipher_ctx :: EVP_CIPHER_CTX

record EC_GROUP =
  curve_name :: int

definition EC_GROUP_get_curve_name :: "EC_GROUP \<Rightarrow> int" where
  "EC_GROUP_get_curve_name g = curve_name g"

record EC_KEY =
  group :: EC_GROUP

definition EC_KEY_get0_group :: "EC_KEY \<Rightarrow> EC_GROUP" where
  "EC_KEY_get0_group k = group k"

record EVP_MD =
  evp_md_type :: int
  evp_md_size :: nat

definition EVP_MD_type :: "EVP_MD \<Rightarrow> int" where
  "EVP_MD_type md = evp_md_type md"

definition EVP_MD_size :: "EVP_MD \<Rightarrow> nat" where
  "EVP_MD_size md = evp_md_size md"

text \<open>
  \<open>pkey_ec\<close> is the member \<open>pkey.ec\<close> of the key's union; the code reads it only
  for a key of type \<open>EVP_PKEY_EC\<close>. \<open>pkey_size\<close> is what \<open>EVP_PKEY_size\<close>
  returns for the key.
\<close>

record EVP_PKEY =
  pkey_type :: int
  pkey_ec :: EC_KEY
  pkey_size :: nat

definition EVP_PKEY_id :: "EVP_PKEY \<Rightarrow> int" where
  "EVP_PKEY_id k = pkey_type k"

definition EVP_PKEY_size :: "EVP_PKEY \<Rightarrow> nat" where
  "EVP_PKEY_size k = pkey_size k"

text \<open>
  An accessor with an out-parameter returns 1 and a value, or 0; either way it may leave
  diagnostic entries on the error queue. Its outcome for a context is the pair of the
  entries it leaves and the value it hands out (\<open>None\<close> when it returns 0).
\<close>

type_synonym 'a probe = "err_entry list \<times> 'a option"

definition run_probe :: "'a probe \<Rightarrow> thread_state \<Rightarrow> 'a option \<times> thread_state" where
  "run_probe p s = (snd p, s\<lparr>err_queue := err_queue s @ fst p\<rparr>)"

record EVP_PKEY_CTX =
  pkey :: EVP_PKEY
  signature_md :: "EVP_MD probe"
  rsa_padding :: "int probe"
  rsa_pss_saltlen :: "int probe"
  rsa_mgf1_md :: "EVP_MD probe"

definition EVP_PKEY_CTX_get0_pkey :: "EVP_PKEY_CTX \<Rightarrow> EVP_PKEY" where
  "EVP_PKEY_CTX_get0_pkey c = pkey c"

definition EVP_PKEY_CTX_get_signature_md :: "EVP_PKEY_CTX \<Rightarrow> thread_state \<Rightarrow> EVP_MD option \<times> thread_state" where
  "EVP_PKEY_CTX_get_signature_md c s = run_probe (signature_md c) s"

definition EVP_PKEY_CTX_get_rsa_padding :: "EVP_PKEY_CTX \<Rightarrow> thread_state \<Rightarrow> int option \<times> thread_state" where
  "EVP_PKEY_CTX_get_rsa_padding c s = run_probe (rsa_padding c) s"

definition EVP_PKEY_CTX_get_rsa_pss_saltlen :: "EVP_PKEY_CTX \<Rightarrow> thread_state \<Rightarrow> int option \<times> thread_state" where
  "EVP_PKEY_CTX_get_rsa_pss_saltlen c s = run_probe (rsa_pss_saltlen c) s"

definition EVP_PKEY_CTX_get_rsa_mgf1_md :: "EVP_PKEY_CTX \<Rightarrow> thread_state \<Rightarrow> EVP_MD option \<times> thread_state" where
  "EVP_PKEY_CTX_get_rsa_mgf1_md c s = run_probe (rsa_mgf1_md c) s"

text \<open>\<open>digest\<close> is the digest bound to the context, \<open>None\<close> when there is none.\<close>

record EVP_MD_CTX =
  digest :: "EVP_MD option"
  pctx :: EVP_PKEY_CTX

definition EVP_MD_CTX_md :: "EVP_MD_CTX \<Rightarrow> EVP_MD option" where
  "EVP_MD_CTX_md c = digest c"

text \<open>The cast \<open>(int)\<close> of a \<open>size_t\<close>: the low 32 bits, read as two's complement.\<close>

definition int_of_size_t :: "nat \<Rightarrow> int" where
  "int_of_size_t n = sint (word_of_nat n :: 32 word)"

subsection \<open>The predicates and the verification glue (lines 128-365)\<close>

text \<open>Lines 128-153.\<close>

definition AEAD_GCM_verify_service_indicator :: "alloc_env \<Rightarrow> EVP_AEAD_CTX \<Rightarrow> thread_state \<Rightarrow> thread_state" where
  "AEAD_GCM_verify_service_indicator env ctx s =
     (let key_len = EVP_AEAD_key_length (aead ctx) in
      if key_len = 16 \<or> key_len = 32 then FIPS_service_indicator_update_state env s else s)"

definition AEAD_CCM_verify_service_indicator :: "alloc_env \<Rightarrow> EVP_AEAD_CTX \<Rightarrow> thread_state \<Rightarrow> thread_state" where
  "AEAD_CCM_verify_service_indicator env ctx s =
     (if EVP_AEAD_key_length (aead ctx) = 16 \<and> tag_len ctx = 4
      then FIPS_service_indicator_update_state env s else s)"

definition AES_CMAC_verify_service_indicator :: "alloc_env \<Rightarrow> CMAC_CTX \<Rightarrow> thread_state \<Rightarrow> thread_state" where
  "AES_CMAC_verify_service_indicator env ctx s =
     (let key_len = key_len (cipher_ctx ctx) in
      if key_len = 16 \<or> key_len = 32 then FIPS_service_indicator_update_state env s else s)"

text \<open>Lines 157-198: the three \<open>switch\<close> statements, a C truth value as a \<open>bool\<close>.\<close>

definition is_ec_fips_approved :: "int \<Rightarrow> bool" where
  "is_ec_fips_approved curve_nid =
     (if curve_nid = NID_secp224r1 \<or> curve_nid = NID_X9_62_prime256v1 \<or>
         curve_nid = NID_secp384r1 \<or> curve_nid = NID_secp521r1
      then True else False)"

definition is_md_fips_approved_for_signing :: "int \<Rightarrow> bool" where
  "is_md_fips_approved_for_signing md_type =
     (if md_type = NID_sha224 \<or> md_type = NID_sha256 \<or> md_type = NID_sha384 \<or>
         md_type = NID_sha512
      then True else False)"

definition is_md_fips_approved_for_verifying :: "int \<Rightarrow> bool" where
  "is_md_fips_approved_for_verifying md_type =
     (if md_type = NID_sha1 \<or> md_type = NID_sha224 \<or> md_type = NID_sha256 \<or>
         md_type = NID_sha384 \<or> md_type = NID_sha512
      then True else False)"

text \<open>
  The condition of lines 232-235 that sends a PSS signature to \<open>err\<close>, evaluated
  left to right as C's \<open>||\<close> does: an accessor behind a failed one is not called.
  \<open>True\<close> is the jump.
\<close>

definition pss_params_rejected ::
  "EVP_PKEY_CTX \<Rightarrow> EVP_MD \<Rightarrow> int \<Rightarrow> thread_state \<Rightarrow> bool \<times> thread_state" where
  "pss_params_rejected pkey_ctx pctx_md md_type s =
     (case EVP_PKEY_CTX_get_rsa_pss_saltlen pkey_ctx s of
        (None, s1) \<Rightarrow> (True, s1)
      | (Some salt_len, s1) \<Rightarrow>
          (case EVP_PKEY_CTX_get_rsa_mgf1_md pkey_ctx s1 of
             (None, s2) \<Rightarrow> (True, s2)
           | (Some mgf1_md, s2) \<Rightarrow>
               (if salt_len \<noteq> - 1 \<and> salt_len \<noteq> int_of_size_t (EVP_MD_size pctx_md) then True
                else EVP_MD_type mgf1_md \<noteq> md_type, s2)))"

text \<open>
  Lines 242-251, reached when no check has jumped to \<open>err\<close>: the digest and the
  modulus size decide the update.
\<close>

definition rsa_size_check ::
  "alloc_env \<Rightarrow> EVP_MD_CTX \<Rightarrow> bool \<Rightarrow> (int \<Rightarrow> bool) \<Rightarrow> int \<Rightarrow> thread_state \<Rightarrow> thread_state" where
  "rsa_size_check env ctx rsa_1024_ok md_ok md_type s =
     (let pkey_size = EVP_PKEY_size (pkey (pctx ctx)) in
      if md_ok md_type \<and>
         ((rsa_1024_ok \<and> pkey_size = 128) \<or> pkey_size = 256 \<or> pkey_size = 384 \<or> pkey_size = 512)
      then FIPS_service_indicator_update_state env s else s)"

text \<open>
  \<open>evp_md_ctx_verify_service_indicator\<close>, lines 200-263. Every \<open>goto err\<close> and
  the fall through the end of the \<open>if\<close> reach the label \<open>err\<close>, where
  \<open>ERR_clear_error\<close> runs; so the body computes the thread as it reaches the label.
\<close>

definition evp_md_ctx_verify_service_indicator ::
  "alloc_env \<Rightarrow> EVP_MD_CTX \<Rightarrow> bool \<Rightarrow> (int \<Rightarrow> bool) \<Rightarrow> thread_state \<Rightarrow> thread_state" where
  "evp_md_ctx_verify_service_indicator env ctx rsa_1024_ok md_ok s =
     ERR_clear_error
       (case EVP_MD_CTX_md ctx of
          None \<Rightarrow> s
        | Some md \<Rightarrow>
            let pkey = EVP_PKEY_CTX_get0_pkey (pctx ctx);
                pkey_type = EVP_PKEY_id pkey;
                md_type = EVP_MD_type md
            in
            if pkey_type = EVP_PKEY_RSA \<or> pkey_type = EVP_PKEY_RSA_PSS then
              (case EVP_PKEY_CTX_get_signature_md (pctx ctx) s of
                 (None, s1) \<Rightarrow> s1
               | (Some pctx_md, s1) \<Rightarrow>
                   if EVP_MD_type pctx_md \<noteq> md_type then s1
                   else
                     (case EVP_PKEY_CTX_get_rsa_padding (pctx ctx) s1 of
                        (None, s2) \<Rightarrow> s2
                      | (Some padding, s2) \<Rightarrow>
                          if padding = RSA_PKCS1_PSS_PADDING then
                            (case pss_params_rejected (pctx ctx) pctx_md md_type s2 of
                               (True, s3) \<Rightarrow> s3
                             | (False, s3) \<Rightarrow> rsa_size_check env ctx rsa_1024_ok md_ok md_type s3)
                          else rsa_size_check env ctx rsa_1024_ok md_ok md_type s2))
            else if pkey_type = EVP_PKEY_EC then
              (let curve_nid = EC_GROUP_get_curve_name (group (pkey_ec pkey)) in
               if md_ok md_type \<and> is_ec_fips_approved curve_nid
               then FIPS_service_indicator_update_state env s else s)
            else s)"

text \<open>Lines 267-302.\<close>

definition EC_KEY_keygen_verify_service_indicator :: "alloc_env \<Rightarrow> EC_KEY \<Rightarrow> thread_state \<Rightarrow> thread_state" where
  "EC_KEY_keygen_verify_service_indicator env eckey s =
     (if is_ec_fips_approved (EC_GROUP_get_curve_name (group eckey))
      then FIPS_service_indicator_update_state env s else s)"

definition ECDH_verify_service_indicator :: "alloc_env \<Rightarrow> EC_KEY \<Rightarrow> thread_state \<Rightarrow> thread_state" where
  "ECDH_verify_service_indicator env ec_key s =
     (if is_ec_fips_approved (EC_GROUP_get_curve_name (EC_KEY_get0_group ec_key))
      then FIPS_service_indicator_update_state env s else s)"

definition EVP_PKEY_keygen_verify_service_indicator :: "alloc_env \<Rightarrow> EVP_PKEY \<Rightarrow> thread_state \<Rightarrow> thread_state" where
  "EVP_PKEY_keygen_verify_service_indicator env key s =
     (if pkey_type key = EVP_PKEY_RSA \<or> pkey_type key = EVP_PKEY_RSA_PSS then
        (let key_size = EVP_PKEY_size key in
         if key_size = 256 \<or> key_size = 384 \<or> key_size = 512
         then FIPS_service_indicator_update_state env s else s)
      else if pkey_type key = EVP_PKEY_EC then
        (let curve_nid = EC_GROUP_get_curve_name (group (pkey_ec key)) in
         if is_ec_fips_approved curve_nid then FIPS_service_indicator_update_state env s else s)
      else s)"

text \<open>Lines 304-329.\<close>

definition EVP_Cipher_verify_service_indicator :: "alloc_env \<Rightarrow> EVP_CIPHER_CTX \<Rightarrow> thread_state \<Rightarrow> thread_state" where
  "EVP_Cipher_verify_service_indicator env ctx s =
     (let nid = EVP_CIPHER_CTX_nid ctx in
      if nid = NID_aes_128_ecb \<or> nid = NID_aes_192_ecb \<or> nid = NID_aes_256_ecb \<or>
         nid = NID_aes_128_cbc \<or> nid = NID_aes_192_cbc \<or> nid = NID_aes_256_cbc \<or>
         nid = NID_aes_128_ctr \<or> nid = NID_aes_192_ctr \<or> nid = NID_aes_256_ctr
      then FIPS_service_indicator_update_state env s else s)"

definition EVP_DigestVerify_verify_service_indicator :: "alloc_env \<Rightarrow> EVP_MD_CTX \<Rightarrow> thread_state \<Rightarrow> thread_state" where
  "EVP_DigestVerify_verify_service_indicator env ctx s =
     evp_md_ctx_verify_service_indicator env ctx True is_md_fips_approved_for_verifying s"

definition EVP_DigestSign_verify_service_indicator :: "alloc_env \<Rightarrow> EVP_MD_CTX \<Rightarrow> thread_state \<Rightarrow> thread_state" where
  "EVP_DigestSign_verify_service_indicator env ctx s =
     evp_md_ctx_verify_service_indicator env ctx False is_md_fips_approved_for_signing s"

text \<open>Lines 332-365.\<close>

definition HMAC_verify_service_indicator :: "alloc_env \<Rightarrow> EVP_MD \<Rightarrow> thread_state \<Rightarrow> thread_state" where
  "HMAC_verify_service_indicator env evp_md s =
     (let t = evp_md_type evp_md in
      if t = NID_sha1 \<or> t = NID_sha224 \<or> t = NID_sha256 \<or> t = NID_sha384 \<or> t = NID_sha512
      then FIPS_service_indicator_update_state env s else s)"

definition TLSKDF_verify_service_indicator :: "alloc_env \<Rightarrow> EVP_MD \<Rightarrow> thread_state \<Rightarrow> thread_state" where
  "TLSKDF_verify_service_indicator env dgst s =
     (let t = evp_md_type dgst in
      if t = NID_md5 \<or> t = NID_sha1 \<or> t = NID_md5_sha1 \<or> t = NID_sha256 \<or> t = NID_sha384 \<or>
         t = NID_sha512
      then FIPS_service_indicator_update_state env s else s)"

subsection \<open>A thread's calls into the subsystem\<close>

text \<open>
  One call of the public surface, with the outcome of the allocation collaborators at
  that call; a thread runs a list of them in order and stops at the first abort. The
  two snapshot functions return a value and leave the thread to the next call.
\<close>

datatype indicator_call =
    Lock_state
  | Unlock_state
  | Update_state
  | Before_call
  | After_call
  | AEAD_GCM_verify EVP_AEAD_CTX
  | AEAD_CCM_verify EVP_AEAD_CTX
  | AES_CMAC_verify CMAC_CTX
  | EC_KEY_keygen_verify EC_KEY
  | ECDH_verify EC_KEY
  | EVP_PKEY_keygen_verify EVP_PKEY
  | EVP_Cipher_verify EVP_CIPHER_CTX
  | EVP_DigestVerify_verify EVP_MD_CTX
  | EVP_DigestSign_verify EVP_MD_CTX
  | HMAC_verify EVP_MD
  | TLSKDF_verify EVP_MD

fun exec_call :: "alloc_env \<Rightarrow> indicator_call \<Rightarrow> thread_state \<Rightarrow> fault + thread_state" where
  "exec_call env Lock_state s = FIPS_service_indicator_lock_state env s"
| "exec_call env Unlock_state s = FIPS_service_indicator_unlock_state env s"
| "exec_call env Update_state s = Inr (FIPS_service_indicator_update_state env s)"
| "exec_call env Before_call s = Inr (snd (FIPS_service_indicator_before_call env s))"
| "exec_call env After_call s = Inr (snd (FIPS_service_indicator_after_call env s))"
| "exec_call env (AEAD_GCM_verify c) s = Inr (AEAD_GCM_verify_service_indicator env c s)"
| "exec_call env (AEAD_CCM_verify c) s = Inr (AEAD_CCM_verify_service_indicator env c s)"
| "exec_call env (AES_CMAC_verify c) s = Inr (AES_CMAC_verify_service_indicator env c s)"
| "exec_call env (EC_KEY_keygen_verify k) s = Inr (EC_KEY_keygen_verify_service_indicator env k s)"
| "exec_call env (ECDH_verify k) s = Inr (ECDH_verify_service_indicator env k s)"
| "exec_call env (EVP_PKEY_keygen_verify k) s = Inr (EVP_PKEY_keygen_verify_service_indicator env k s)"
| "exec_call env (EVP_Cipher_verify c) s = Inr (EVP_Cipher_verify_service_indicator env c s)"
| "exec_call env (EVP_DigestVerify_verify c) s = Inr (EVP_DigestVerify_verify_service_indicator env c s)"
| "exec_call env (EVP_DigestSign_verify c) s = Inr (EVP_DigestSign_verify_service_indicator env c s)"
| "exec_call env (HMAC_verify m) s = Inr (HMAC_verify_service_indicator env m s)"
| "exec_call env (TLSKDF_verify m) s = Inr (TLSKDF_verify_service_indicator env m s)"


text \<open>
  The counter a thread would report: that of its indicator, and 0 while it has none
  (a lookup that creates the indicator starts it at 0, one that fails reports 0).
\<close>

definition approval_counter :: "thread_state \<Rightarrow> uint64_t" where
  "approval_counter s = (case thread_local s of None \<Rightarrow> 0 | Some indicator \<Rightarrow> counter indicator)"

text \<open>A thread that has made no call yet.\<close>

definition fresh_thread :: thread_state where
  "fresh_thread = \<lparr>thread_local = None, err_queue = []\<rparr>"

definition allocation_succeeds :: alloc_env where
  "allocation_succeeds = \<lparr>malloc_ok = True, set_thread_local_ok = True\<rparr>"

definition allocation_fails :: alloc_env where
  "allocation_fails = \<lparr>malloc_ok = False, set_thread_local_ok = True\<rparr>"

definition registration_fails :: alloc_env where
  "registration_fails = \<lparr>malloc_ok = True, set_thread_local_ok = False\<rparr>"


text \<open>
  The decision of \<open>evp_md_ctx_verify_service_indicator\<close> without its effects:
  whether control reaches one of the two calls of the update primitive (lines 250 and
  256). It reads the values the accessors hand out, in the order of the code.
\<close>

definition pss_params_ok :: "EVP_PKEY_CTX \<Rightarrow> EVP_MD \<Rightarrow> int \<Rightarrow> bool" where
  "pss_params_ok pkey_ctx pctx_md md_type =
     (case snd (rsa_pss_saltlen pkey_ctx) of
        None \<Rightarrow> False
      | Some salt_len \<Rightarrow>
          (case snd (rsa_mgf1_md pkey_ctx) of
             None \<Rightarrow> False
           | Some mgf1_md \<Rightarrow>
               (salt_len = - 1 \<or> salt_len = int_of_size_t (EVP_MD_size pctx_md)) \<and>
               EVP_MD_type mgf1_md = md_type))"

definition evp_md_ctx_approved :: "EVP_MD_CTX \<Rightarrow> bool \<Rightarrow> (int \<Rightarrow> bool) \<Rightarrow> bool" where
  "evp_md_ctx_approved ctx rsa_1024_ok md_ok =
     (case digest ctx of
        None \<Rightarrow> False
      | Some md \<Rightarrow>
          if pkey_type (pkey (pctx ctx)) = EVP_PKEY_RSA \<or>
             pkey_type (pkey (pctx ctx)) = EVP_PKEY_RSA_PSS
          then
            (case snd (signature_md (pctx ctx)) of
               None \<Rightarrow> False
             | Some pctx_md \<Rightarrow>
                 EVP_MD_type pctx_md = EVP_MD_type md \<and>
                 (case snd (rsa_padding (pctx ctx)) of
                    None \<Rightarrow> False
                  | Some padding \<Rightarrow>
                      (padding = RSA_PKCS1_PSS_PADDING \<longrightarrow>
                         pss_params_ok (pctx ctx) pctx_md (EVP_MD_type md)) \<and>
                      md_ok (EVP_MD_type md) \<and>
                      ((rsa_1024_ok \<and> pkey_size (pkey (pctx ctx)) = 128) \<or>
                       pkey_size (pkey (pctx ctx)) = 256 \<or>
                       pkey_size (pkey (pctx ctx)) = 384 \<or>
                       pkey_size (pkey (pctx ctx)) = 512)))
          else
            pkey_type (pkey (pctx ctx)) = EVP_PKEY_EC \<and>
            md_ok (EVP_MD_type md) \<and>
            is_ec_fips_approved (curve_name (group (pkey_ec (pkey (pctx ctx))))))"

text \<open>
  Contexts for the scenarios: SHA-256 (32 bytes of output) bound to a digest-sign or
  digest-verify context over an RSA key, with the padding mode, the outcome of the salt
  length accessor and the modulus size in bytes left open. Every other accessor succeeds
  and leaves no diagnostic entry; the MGF1 digest is SHA-256 as well.
\<close>

definition sha256 :: EVP_MD where
  "sha256 = \<lparr>evp_md_type = NID_sha256, evp_md_size = 32\<rparr>"

definition rsa_sha256_ctx :: "int \<Rightarrow> int probe \<Rightarrow> nat \<Rightarrow> EVP_MD_CTX" where
  "rsa_sha256_ctx padding saltlen modulus_bytes =
     \<lparr>digest = Some sha256,
      pctx = \<lparr>pkey = \<lparr>pkey_type = EVP_PKEY_RSA,
                      pkey_ec = \<lparr>group = \<lparr>curve_name = 0\<rparr>\<rparr>,
                      pkey_size = modulus_bytes\<rparr>,
              signature_md = ([], Some sha256),
              rsa_padding = ([], Some padding),
              rsa_pss_saltlen = saltlen,
              rsa_mgf1_md = ([], Some sha256)\<rparr>\<rparr>"

section \<open>Basic facts\<close>

text \<open>The lookup of the store, by cases on the slot and on the collaborators.\<close>

lemma service_indicator_get_cases:
  "service_indicator_get env s =
     (case thread_local s of
        Some i \<Rightarrow> (Some i, s)
      | None \<Rightarrow>
          if malloc_ok env \<and> set_thread_local_ok env
          then (Some \<lparr>lock_state = 0, counter = 0\<rparr>, s\<lparr>thread_local := Some \<lparr>lock_state = 0, counter = 0\<rparr>\<rparr>)
          else (None, s\<lparr>err_queue := err_queue s @
                  [(ERR_LIB_CRYPTO, if malloc_ok env then ERR_R_INTERNAL_ERROR else ERR_R_MALLOC_FAILURE)]\<rparr>))"
  by (simp add: service_indicator_get_def OPENSSL_PUT_ERROR_def STATE_UNLOCKED_def Let_def
           split: option.splits)

lemma service_indicator_get_fresh:
  "service_indicator_get allocation_succeeds fresh_thread =
     (Some \<lparr>lock_state = 0, counter = 0\<rparr>,
      \<lparr>thread_local = Some \<lparr>lock_state = 0, counter = 0\<rparr>, err_queue = []\<rparr>)"
  by (simp add: service_indicator_get_cases fresh_thread_def allocation_succeeds_def)



lemma update_state_counter:
  assumes "service_indicator_get env s = (Some indicator, s1)" and "lock_state indicator = 0"
  shows "approval_counter (FIPS_service_indicator_update_state env s) = approval_counter s + 1"
  using assms
  by (auto simp add: FIPS_service_indicator_update_state_def service_indicator_get_cases
        approval_counter_def STATE_UNLOCKED_def split: option.splits if_splits)

text \<open>Incrementing a 64-bit word.\<close>

lemma unat_succ64: "unat (x + 1) = (unat x + 1) mod 2 ^ 64" for x :: "64 word"
  by (simp add: unat_word_ariths)

lemma succ_less_iff_max: "(x + 1 < x) = (unat x = 2 ^ 64 - 1)" for x :: "64 word"
proof -
  have b: "unat x < 2 ^ 64" using unsigned_less [of x, where ?'a = nat] by simp
  show ?thesis
  proof (cases "unat x = 2 ^ 64 - 1")
    case True
    then have "unat (x + 1) = 0" by (simp add: unat_succ64)
    with True show ?thesis by (simp add: word_less_nat_alt)
  next
    case False
    with b have "unat x + 1 < 2 ^ 64" by simp
    then have "unat (x + 1) = unat x + 1" by (simp add: unat_succ64)
    with False show ?thesis by (simp add: word_less_nat_alt)
  qed
qed

section \<open>The update primitive\<close>

text \<open>
  C1, as stated, fails where the store is unavailable: the failed lookup records a
  diagnostic entry (line 48 or 58), so the call does change the thread's state. On a
  thread without an indicator whose allocation fails, the update leaves
  \<open>ERR_R_MALLOC_FAILURE\<close> on the error queue.
\<close>

theorem update_state_changes_error_queue:
  "FIPS_service_indicator_update_state allocation_fails fresh_thread =
     \<lparr>thread_local = None, err_queue = [(ERR_LIB_CRYPTO, ERR_R_MALLOC_FAILURE)]\<rparr> \<and>
   FIPS_service_indicator_update_state allocation_fails fresh_thread \<noteq> fresh_thread"
  by (simp add: FIPS_service_indicator_update_state_def service_indicator_get_cases
        fresh_thread_def allocation_fails_def)

text \<open>
  C1 (amended). For every call of \<open>FIPS_service_indicator_update_state\<close>: if the
  store is available and the lock depth is 0, the approval counter increases by exactly 1
  (in 64-bit arithmetic) and nothing else changes; if the lock depth is positive, the call
  changes nothing at all; if the store is unavailable, the indicator slot is unchanged
  and the call returns normally, but it appends one diagnostic entry to the error queue,
  \<open>ERR_R_MALLOC_FAILURE\<close> when the allocation failed and
  \<open>ERR_R_INTERNAL_ERROR\<close> when the registration failed.
\<close>

theorem update_state_effect:
  "(service_indicator_get env s = (Some indicator, s1) \<and> lock_state indicator = 0 \<longrightarrow>
      FIPS_service_indicator_update_state env s =
        s\<lparr>thread_local := Some (indicator\<lparr>counter := counter indicator + 1\<rparr>)\<rparr> \<and>
      approval_counter (FIPS_service_indicator_update_state env s) = approval_counter s + 1) \<and>
   (service_indicator_get env s = (Some indicator, s1) \<and> 0 < lock_state indicator \<longrightarrow>
      FIPS_service_indicator_update_state env s = s) \<and>
   (fst (service_indicator_get env s) = None \<longrightarrow>
      FIPS_service_indicator_update_state env s =
        s\<lparr>err_queue := err_queue s @
            [(ERR_LIB_CRYPTO, if malloc_ok env then ERR_R_INTERNAL_ERROR else ERR_R_MALLOC_FAILURE)]\<rparr> \<and>
      thread_local (FIPS_service_indicator_update_state env s) = thread_local s)"
  by (auto simp add: FIPS_service_indicator_update_state_def service_indicator_get_cases
        approval_counter_def STATE_UNLOCKED_def word_greater_zero_iff
        split: option.splits if_splits)

theorem update_state_effect_witness:
  "FIPS_service_indicator_update_state allocation_succeeds fresh_thread =
     \<lparr>thread_local = Some \<lparr>lock_state = 0, counter = 1\<rparr>, err_queue = []\<rparr> \<and>
   FIPS_service_indicator_update_state allocation_succeeds
     \<lparr>thread_local = Some \<lparr>lock_state = 3, counter = 5\<rparr>, err_queue = []\<rparr> =
     \<lparr>thread_local = Some \<lparr>lock_state = 3, counter = 5\<rparr>, err_queue = []\<rparr> \<and>
   FIPS_service_indicator_update_state registration_fails fresh_thread =
     \<lparr>thread_local = None, err_queue = [(ERR_LIB_CRYPTO, ERR_R_INTERNAL_ERROR)]\<rparr>"
  using update_state_effect
          [of allocation_succeeds fresh_thread "\<lparr>lock_state = 0, counter = 0\<rparr>"
              "\<lparr>thread_local = Some \<lparr>lock_state = 0, counter = 0\<rparr>, err_queue = []\<rparr>"]
        update_state_effect
          [of allocation_succeeds "\<lparr>thread_local = Some \<lparr>lock_state = 3, counter = 5\<rparr>, err_queue = []\<rparr>"
              "\<lparr>lock_state = 3, counter = 5\<rparr>"
              "\<lparr>thread_local = Some \<lparr>lock_state = 3, counter = 5\<rparr>, err_queue = []\<rparr>"]
        update_state_effect [of registration_fails fresh_thread]
  by (simp add: service_indicator_get_cases fresh_thread_def allocation_succeeds_def
        registration_fails_def)

section \<open>Overflow\<close>

text \<open>
  C2, as stated, fails: \<open>counter++\<close> is unchecked. At the counter value
  \<open>2^64 - 1\<close> an update on an unlocked indicator returns normally and leaves the
  counter at 0.
\<close>

theorem update_state_wraps_without_abort:
  "exec_call allocation_succeeds Update_state
     \<lparr>thread_local = Some \<lparr>lock_state = 0, counter = 18446744073709551615\<rparr>, err_queue = []\<rparr> =
   Inr \<lparr>thread_local = Some \<lparr>lock_state = 0, counter = 0\<rparr>, err_queue = []\<rparr>"
  by (simp add: FIPS_service_indicator_update_state_def service_indicator_get_cases STATE_UNLOCKED_def)

text \<open>
  C2 (amended). Overflow of the lock depth is a fatal contract violation: a lock at depth
  \<open>2^64 - 1\<close> aborts, and below that depth it adds exactly 1. The approval counter
  is not checked: the update primitive never aborts, and the counter is incremented
  modulo \<open>2^64\<close>, so that \<open>2^64 - 1\<close> is followed by 0.
\<close>

theorem lock_overflow_aborts_counter_wraps:
  "(service_indicator_get env s = (Some indicator, s1) \<and> unat (lock_state indicator) = 2 ^ 64 - 1 \<longrightarrow>
      FIPS_service_indicator_lock_state env s = Inl Abort) \<and>
   (service_indicator_get env s = (Some indicator, s1) \<and> unat (lock_state indicator) < 2 ^ 64 - 1 \<longrightarrow>
      FIPS_service_indicator_lock_state env s =
        Inr (s1\<lparr>thread_local := Some (indicator\<lparr>lock_state := lock_state indicator + 1\<rparr>)\<rparr>) \<and>
      unat (lock_state indicator + 1) = unat (lock_state indicator) + 1) \<and>
   exec_call env Update_state s = Inr (FIPS_service_indicator_update_state env s) \<and>
   (service_indicator_get env s = (Some indicator, s1) \<and> lock_state indicator = 0 \<and>
    unat (counter indicator) = 2 ^ 64 - 1 \<longrightarrow>
      approval_counter (FIPS_service_indicator_update_state env s) = 0) \<and>
   (service_indicator_get env s = (Some indicator, s1) \<and> lock_state indicator = 0 \<longrightarrow>
      unat (approval_counter (FIPS_service_indicator_update_state env s)) =
        (unat (counter indicator) + 1) mod 2 ^ 64)"
proof -
  have b: "unat (lock_state indicator) < 2 ^ 64" using unsigned_less [of "lock_state indicator", where ?'a = nat] by simp
  have upd: "approval_counter (FIPS_service_indicator_update_state env s) = counter indicator + 1"
    if "service_indicator_get env s = (Some indicator, s1)" "lock_state indicator = 0"
    using that by (simp add: FIPS_service_indicator_update_state_def approval_counter_def STATE_UNLOCKED_def)
  have c1: "service_indicator_get env s = (Some indicator, s1) \<and> unat (lock_state indicator) = 2 ^ 64 - 1 \<longrightarrow>
      FIPS_service_indicator_lock_state env s = Inl Abort"
    by (simp add: FIPS_service_indicator_lock_state_def succ_less_iff_max)
  have c2: "service_indicator_get env s = (Some indicator, s1) \<and> unat (lock_state indicator) < 2 ^ 64 - 1 \<longrightarrow>
      FIPS_service_indicator_lock_state env s =
        Inr (s1\<lparr>thread_local := Some (indicator\<lparr>lock_state := lock_state indicator + 1\<rparr>)\<rparr>) \<and>
      unat (lock_state indicator + 1) = unat (lock_state indicator) + 1"
    by (simp add: FIPS_service_indicator_lock_state_def succ_less_iff_max unat_succ64)
  have c3: "exec_call env Update_state s = Inr (FIPS_service_indicator_update_state env s)"
    by simp
  have c4: "service_indicator_get env s = (Some indicator, s1) \<and> lock_state indicator = 0 \<and>
    unat (counter indicator) = 2 ^ 64 - 1 \<longrightarrow>
      approval_counter (FIPS_service_indicator_update_state env s) = 0"
  proof (intro impI, elim conjE)
    assume h: "service_indicator_get env s = (Some indicator, s1)" "lock_state indicator = 0"
       and m: "unat (counter indicator) = 2 ^ 64 - 1"
    from m have "unat (counter indicator + 1) = 0" by (simp add: unat_succ64)
    then have "counter indicator + 1 = 0" by (simp add: unat_eq_0)
    with upd [OF h] show "approval_counter (FIPS_service_indicator_update_state env s) = 0" by simp
  qed
  have c5: "service_indicator_get env s = (Some indicator, s1) \<and> lock_state indicator = 0 \<longrightarrow>
      unat (approval_counter (FIPS_service_indicator_update_state env s)) =
        (unat (counter indicator) + 1) mod 2 ^ 64"
    using upd by (simp add: unat_succ64)
  from c1 c2 c3 c4 c5 show ?thesis by blast
qed

theorem lock_overflow_aborts_counter_wraps_witness:
  "FIPS_service_indicator_lock_state allocation_succeeds
     \<lparr>thread_local = Some \<lparr>lock_state = 18446744073709551615, counter = 0\<rparr>, err_queue = []\<rparr> =
     Inl Abort \<and>
   FIPS_service_indicator_lock_state allocation_succeeds
     \<lparr>thread_local = Some \<lparr>lock_state = 1, counter = 0\<rparr>, err_queue = []\<rparr> =
     Inr \<lparr>thread_local = Some \<lparr>lock_state = 2, counter = 0\<rparr>, err_queue = []\<rparr> \<and>
   approval_counter (FIPS_service_indicator_update_state allocation_succeeds
     \<lparr>thread_local = Some \<lparr>lock_state = 0, counter = 18446744073709551615\<rparr>, err_queue = []\<rparr>) = 0"
  using lock_overflow_aborts_counter_wraps
          [of allocation_succeeds
              "\<lparr>thread_local = Some \<lparr>lock_state = 18446744073709551615, counter = 0\<rparr>, err_queue = []\<rparr>"
              "\<lparr>lock_state = 18446744073709551615, counter = 0\<rparr>"
              "\<lparr>thread_local = Some \<lparr>lock_state = 18446744073709551615, counter = 0\<rparr>, err_queue = []\<rparr>"]
        lock_overflow_aborts_counter_wraps
          [of allocation_succeeds
              "\<lparr>thread_local = Some \<lparr>lock_state = 1, counter = 0\<rparr>, err_queue = []\<rparr>"
              "\<lparr>lock_state = 1, counter = 0\<rparr>"
              "\<lparr>thread_local = Some \<lparr>lock_state = 1, counter = 0\<rparr>, err_queue = []\<rparr>"]
        lock_overflow_aborts_counter_wraps
          [of allocation_succeeds
              "\<lparr>thread_local = Some \<lparr>lock_state = 0, counter = 18446744073709551615\<rparr>, err_queue = []\<rparr>"
              "\<lparr>lock_state = 0, counter = 18446744073709551615\<rparr>"
              "\<lparr>thread_local = Some \<lparr>lock_state = 0, counter = 18446744073709551615\<rparr>, err_queue = []\<rparr>"]
  by (simp add: service_indicator_get_cases)

section \<open>The reentrancy guard\<close>

text \<open>
  C3, as stated, fails for a call that cannot obtain the store. A thread without an
  indicator is at lock depth 0: where the lookup creates the indicator, an unlock aborts.
  Where the allocation fails instead, the same unlock of the same thread returns (lines
  116-119) and the process goes on.
\<close>

theorem unlock_at_depth_0_without_store_returns:
  "FIPS_service_indicator_unlock_state allocation_succeeds fresh_thread = Inl Abort \<and>
   FIPS_service_indicator_unlock_state allocation_fails fresh_thread =
     Inr \<lparr>thread_local = None, err_queue = [(ERR_LIB_CRYPTO, ERR_R_MALLOC_FAILURE)]\<rparr> \<and>
   FIPS_service_indicator_unlock_state allocation_fails fresh_thread \<noteq> Inl Abort"
  by (simp add: FIPS_service_indicator_unlock_state_def service_indicator_get_cases
        fresh_thread_def allocation_succeeds_def allocation_fails_def)

text \<open>
  C3 (amended). For every call of \<open>FIPS_service_indicator_unlock_state\<close> that
  obtains the store (the thread's indicator, or one the lookup creates): at lock depth 0
  the process aborts; at a positive lock depth the depth decreases by exactly 1 and
  nothing else changes. A call that cannot obtain the store does not abort: it returns
  what the failed lookup left, with the indicator slot still empty.
\<close>

theorem unlock_state_aborts_or_decrements:
  "(service_indicator_get env s = (Some indicator, s1) \<and> lock_state indicator = 0 \<longrightarrow>
      FIPS_service_indicator_unlock_state env s = Inl Abort) \<and>
   (service_indicator_get env s = (Some indicator, s1) \<and> 0 < lock_state indicator \<longrightarrow>
      FIPS_service_indicator_unlock_state env s =
        Inr (s1\<lparr>thread_local := Some (indicator\<lparr>lock_state := lock_state indicator - 1\<rparr>)\<rparr>) \<and>
      unat (lock_state indicator - 1) + 1 = unat (lock_state indicator)) \<and>
   (fst (service_indicator_get env s) = None \<longrightarrow>
      FIPS_service_indicator_unlock_state env s = Inr (snd (service_indicator_get env s)) \<and>
      thread_local (snd (service_indicator_get env s)) = None \<and> thread_local s = None)"
proof -
  have dec: "unat (lock_state indicator - 1) + 1 = unat (lock_state indicator)"
    if "0 < lock_state indicator"
    using that by (simp add: unat_minus_one word_greater_zero_iff unat_gt_0)
  have c1: "service_indicator_get env s = (Some indicator, s1) \<and> lock_state indicator = 0 \<longrightarrow>
      FIPS_service_indicator_unlock_state env s = Inl Abort"
    by (simp add: FIPS_service_indicator_unlock_state_def)
  have c2: "service_indicator_get env s = (Some indicator, s1) \<and> 0 < lock_state indicator \<longrightarrow>
      FIPS_service_indicator_unlock_state env s =
        Inr (s1\<lparr>thread_local := Some (indicator\<lparr>lock_state := lock_state indicator - 1\<rparr>)\<rparr>) \<and>
      unat (lock_state indicator - 1) + 1 = unat (lock_state indicator)"
    using dec by (simp add: FIPS_service_indicator_unlock_state_def word_greater_zero_iff)
  have c3: "fst (service_indicator_get env s) = None \<longrightarrow>
      FIPS_service_indicator_unlock_state env s = Inr (snd (service_indicator_get env s)) \<and>
      thread_local (snd (service_indicator_get env s)) = None \<and> thread_local s = None"
    by (auto simp add: FIPS_service_indicator_unlock_state_def service_indicator_get_cases
          split: option.splits if_splits)
  from c1 c2 c3 show ?thesis by blast
qed

theorem unlock_state_aborts_or_decrements_witness:
  "FIPS_service_indicator_unlock_state allocation_succeeds fresh_thread = Inl Abort \<and>
   FIPS_service_indicator_unlock_state allocation_fails
     \<lparr>thread_local = Some \<lparr>lock_state = 2, counter = 7\<rparr>, err_queue = []\<rparr> =
     Inr \<lparr>thread_local = Some \<lparr>lock_state = 1, counter = 7\<rparr>, err_queue = []\<rparr> \<and>
   FIPS_service_indicator_unlock_state registration_fails fresh_thread =
     Inr \<lparr>thread_local = None, err_queue = [(ERR_LIB_CRYPTO, ERR_R_INTERNAL_ERROR)]\<rparr>"
  using unlock_state_aborts_or_decrements
          [of allocation_succeeds fresh_thread "\<lparr>lock_state = 0, counter = 0\<rparr>"
              "\<lparr>thread_local = Some \<lparr>lock_state = 0, counter = 0\<rparr>, err_queue = []\<rparr>"]
        unlock_state_aborts_or_decrements
          [of allocation_fails "\<lparr>thread_local = Some \<lparr>lock_state = 2, counter = 7\<rparr>, err_queue = []\<rparr>"
              "\<lparr>lock_state = 2, counter = 7\<rparr>"
              "\<lparr>thread_local = Some \<lparr>lock_state = 2, counter = 7\<rparr>, err_queue = []\<rparr>"]
        unlock_state_aborts_or_decrements [of registration_fails fresh_thread]
  by (simp add: service_indicator_get_cases fresh_thread_def allocation_succeeds_def
        allocation_fails_def registration_fails_def)

text \<open>
  C10, as stated, fails in one point: lock and unlock do not abort when the store cannot
  be obtained, but the failed lookup records a diagnostic entry, so the thread's state
  is not unchanged.
\<close>

theorem lock_without_store_changes_error_queue:
  "FIPS_service_indicator_lock_state allocation_fails fresh_thread =
     Inr \<lparr>thread_local = None, err_queue = [(ERR_LIB_CRYPTO, ERR_R_MALLOC_FAILURE)]\<rparr> \<and>
   FIPS_service_indicator_unlock_state allocation_fails fresh_thread =
     Inr \<lparr>thread_local = None, err_queue = [(ERR_LIB_CRYPTO, ERR_R_MALLOC_FAILURE)]\<rparr> \<and>
   FIPS_service_indicator_lock_state allocation_fails fresh_thread \<noteq> Inr fresh_thread \<and>
   FIPS_service_indicator_unlock_state allocation_fails fresh_thread \<noteq> Inr fresh_thread"
  by (simp add: FIPS_service_indicator_lock_state_def FIPS_service_indicator_unlock_state_def
        service_indicator_get_cases fresh_thread_def allocation_fails_def)

text \<open>
  C10 (amended). When the store cannot be obtained (the thread has no indicator, and the
  allocation or the registration fails), \<open>FIPS_service_indicator_lock_state\<close> and
  \<open>FIPS_service_indicator_unlock_state\<close> return without aborting and leave the
  indicator slot empty; in particular an unlock with no store available does not abort.
  The only change is one diagnostic entry appended to the error queue:
  \<open>ERR_R_MALLOC_FAILURE\<close> when the allocation failed, \<open>ERR_R_INTERNAL_ERROR\<close>
  when the registration failed.
\<close>

theorem lock_unlock_without_store:
  assumes "thread_local s = None" and "\<not> malloc_ok env \<or> \<not> set_thread_local_ok env"
  shows "FIPS_service_indicator_lock_state env s =
           Inr (s\<lparr>err_queue := err_queue s @
                  [(ERR_LIB_CRYPTO, if malloc_ok env then ERR_R_INTERNAL_ERROR else ERR_R_MALLOC_FAILURE)]\<rparr>) \<and>
         FIPS_service_indicator_unlock_state env s =
           Inr (s\<lparr>err_queue := err_queue s @
                  [(ERR_LIB_CRYPTO, if malloc_ok env then ERR_R_INTERNAL_ERROR else ERR_R_MALLOC_FAILURE)]\<rparr>)"
  using assms
  by (auto simp add: FIPS_service_indicator_lock_state_def FIPS_service_indicator_unlock_state_def
        service_indicator_get_cases)

theorem lock_unlock_without_store_witness:
  "FIPS_service_indicator_lock_state registration_fails fresh_thread =
     Inr \<lparr>thread_local = None, err_queue = [(ERR_LIB_CRYPTO, ERR_R_INTERNAL_ERROR)]\<rparr> \<and>
   FIPS_service_indicator_unlock_state registration_fails fresh_thread =
     Inr \<lparr>thread_local = None, err_queue = [(ERR_LIB_CRYPTO, ERR_R_INTERNAL_ERROR)]\<rparr>"
  using lock_unlock_without_store [of fresh_thread registration_fails]
  by (simp add: fresh_thread_def registration_fails_def)

section \<open>The build without approval tracking\<close>

text \<open>
  C5. Without \<open>AWSLC_FIPS\<close>, \<open>FIPS_service_indicator_before_call\<close> returns 0
  and \<open>FIPS_service_indicator_after_call\<close> returns 1, for every state of the
  thread and without changing it; so the value after is greater than the value before,
  whatever happens between the two calls.
\<close>

theorem nofips_before_0_after_1:
  "fst (FIPS_service_indicator_before_call_nofips s) = 0 \<and>
   fst (FIPS_service_indicator_after_call_nofips s') = 1 \<and>
   fst (FIPS_service_indicator_before_call_nofips s) < fst (FIPS_service_indicator_after_call_nofips s') \<and>
   snd (FIPS_service_indicator_before_call_nofips s) = s \<and>
   snd (FIPS_service_indicator_after_call_nofips s') = s'"
  by (simp add: FIPS_service_indicator_before_call_nofips_def FIPS_service_indicator_after_call_nofips_def)

section \<open>AEAD with CCM\<close>

text \<open>
  C9. \<open>AEAD_CCM_verify_service_indicator\<close> calls the update primitive if and only
  if the key length is 16 bytes and the tag length is 4 bytes; otherwise it leaves the
  thread as it is. Where the update primitive counts (store available, lock depth 0),
  the counter is incremented if and only if the key length is 16 and the tag length 4.
\<close>

theorem AEAD_CCM_approved_iff:
  "(EVP_AEAD_key_length (aead ctx) = 16 \<and> tag_len ctx = 4 \<longrightarrow>
      AEAD_CCM_verify_service_indicator env ctx s = FIPS_service_indicator_update_state env s) \<and>
   (\<not> (EVP_AEAD_key_length (aead ctx) = 16 \<and> tag_len ctx = 4) \<longrightarrow>
      AEAD_CCM_verify_service_indicator env ctx s = s) \<and>
   (service_indicator_get env s = (Some indicator, s1) \<and> lock_state indicator = STATE_UNLOCKED \<longrightarrow>
      (approval_counter (AEAD_CCM_verify_service_indicator env ctx s) = approval_counter s + 1
         \<longleftrightarrow> EVP_AEAD_key_length (aead ctx) = 16 \<and> tag_len ctx = 4) \<and>
      (approval_counter (AEAD_CCM_verify_service_indicator env ctx s) \<noteq> approval_counter s
         \<longleftrightarrow> EVP_AEAD_key_length (aead ctx) = 16 \<and> tag_len ctx = 4))"
proof -
  have "approval_counter (FIPS_service_indicator_update_state env s) = approval_counter s + 1"
    if "service_indicator_get env s = (Some indicator, s1)" "lock_state indicator = STATE_UNLOCKED"
    using that update_state_counter [of env s indicator s1] by (simp add: STATE_UNLOCKED_def)
  then show ?thesis
    by (auto simp add: AEAD_CCM_verify_service_indicator_def)
qed

theorem AEAD_CCM_approved_iff_witness:
  "approval_counter (AEAD_CCM_verify_service_indicator allocation_succeeds
      \<lparr>aead = \<lparr>aead_key_len = 16\<rparr>, tag_len = 4\<rparr> fresh_thread) = approval_counter fresh_thread + 1 \<and>
   AEAD_CCM_verify_service_indicator allocation_succeeds
      \<lparr>aead = \<lparr>aead_key_len = 16\<rparr>, tag_len = 8\<rparr> fresh_thread = fresh_thread"
proof -
  have k: "EVP_AEAD_key_length (aead \<lparr>aead = \<lparr>aead_key_len = 16\<rparr>, tag_len = 4\<rparr>) = 16 \<and>
           tag_len \<lparr>aead = \<lparr>aead_key_len = 16\<rparr>, tag_len = 4\<rparr> = 4"
    by (simp add: EVP_AEAD_key_length_def)
  have n: "\<not> (EVP_AEAD_key_length (aead \<lparr>aead = \<lparr>aead_key_len = 16\<rparr>, tag_len = 8\<rparr>) = 16 \<and>
           tag_len \<lparr>aead = \<lparr>aead_key_len = 16\<rparr>, tag_len = 8\<rparr> = 4)"
    by simp
  have u: "lock_state \<lparr>lock_state = 0, counter = 0\<rparr> = STATE_UNLOCKED"
    by (simp add: STATE_UNLOCKED_def)
  from AEAD_CCM_approved_iff
         [of "\<lparr>aead = \<lparr>aead_key_len = 16\<rparr>, tag_len = 4\<rparr>" allocation_succeeds fresh_thread
             "\<lparr>lock_state = 0, counter = 0\<rparr>"
             "\<lparr>thread_local = Some \<lparr>lock_state = 0, counter = 0\<rparr>, err_queue = []\<rparr>"]
       service_indicator_get_fresh k u
  have a: "approval_counter (AEAD_CCM_verify_service_indicator allocation_succeeds
      \<lparr>aead = \<lparr>aead_key_len = 16\<rparr>, tag_len = 4\<rparr> fresh_thread) = approval_counter fresh_thread + 1"
    by blast
  from AEAD_CCM_approved_iff
         [of "\<lparr>aead = \<lparr>aead_key_len = 16\<rparr>, tag_len = 8\<rparr>" allocation_succeeds fresh_thread] n
  have b: "AEAD_CCM_verify_service_indicator allocation_succeeds
      \<lparr>aead = \<lparr>aead_key_len = 16\<rparr>, tag_len = 8\<rparr> fresh_thread = fresh_thread"
    by blast
  from a b show ?thesis by simp
qed

section \<open>The composite signature predicate\<close>

text \<open>
  The accessors and the error queue do not touch the indicator slot, and the update
  primitive reads nothing but the slot; so the slot after
  \<open>evp_md_ctx_verify_service_indicator\<close> is that of an update when
  \<open>evp_md_ctx_approved\<close> holds, and unchanged otherwise.
\<close>

lemma approval_counter_cong:
  "thread_local s' = thread_local s \<Longrightarrow> approval_counter s' = approval_counter s"
  by (simp add: approval_counter_def)

lemma update_state_thread_local_cong:
  "thread_local s' = thread_local s \<Longrightarrow>
   thread_local (FIPS_service_indicator_update_state env s') =
   thread_local (FIPS_service_indicator_update_state env s)"
  by (simp add: FIPS_service_indicator_update_state_def service_indicator_get_cases
        split: option.splits)

lemma run_probe_simps:
  "fst (run_probe p s) = snd p"
  "thread_local (snd (run_probe p s)) = thread_local s"
  by (simp_all add: run_probe_def)

lemma pss_params_rejected_eq:
  "fst (pss_params_rejected pc pmd t s) = (\<not> pss_params_ok pc pmd t)"
  "thread_local (snd (pss_params_rejected pc pmd t s)) = thread_local s"
  by (auto simp add: pss_params_rejected_def pss_params_ok_def
        EVP_PKEY_CTX_get_rsa_pss_saltlen_def EVP_PKEY_CTX_get_rsa_mgf1_md_def run_probe_def
        split: option.splits prod.splits)

lemma rsa_size_check_thread_local:
  "thread_local (rsa_size_check env ctx r m t s) =
     (if m t \<and> ((r \<and> pkey_size (pkey (pctx ctx)) = 128) \<or> pkey_size (pkey (pctx ctx)) = 256 \<or>
                 pkey_size (pkey (pctx ctx)) = 384 \<or> pkey_size (pkey (pctx ctx)) = 512)
      then thread_local (FIPS_service_indicator_update_state env s) else thread_local s)"
  by (auto simp add: rsa_size_check_def EVP_PKEY_size_def Let_def)

lemma evp_md_ctx_err_queue:
  "err_queue (evp_md_ctx_verify_service_indicator env ctx r m s) = []"
  by (simp add: evp_md_ctx_verify_service_indicator_def ERR_clear_error_def)

lemma update_state_ignores_err_queue:
  "thread_local (FIPS_service_indicator_update_state env (s\<lparr>err_queue := q\<rparr>)) =
   thread_local (FIPS_service_indicator_update_state env s)"
  by (rule update_state_thread_local_cong) simp

lemma pss_params_rejected_case:
  "thread_local (case pss_params_rejected pc pmd t s of (True, s3) \<Rightarrow> s3 | (False, s3) \<Rightarrow> f s3) =
     (if pss_params_ok pc pmd t then thread_local (f (snd (pss_params_rejected pc pmd t s)))
      else thread_local s)"
  using pss_params_rejected_eq [of pc pmd t s]
  by (cases "pss_params_rejected pc pmd t s") (auto split: bool.splits)

lemma rsa_size_check_probed:
  "thread_local s' = thread_local s \<Longrightarrow>
   thread_local (rsa_size_check env ctx r m t s') = thread_local (rsa_size_check env ctx r m t s)"
  using update_state_thread_local_cong [of s' s env]
  by (auto simp add: rsa_size_check_thread_local)

lemma update_state_after_pss_probe:
  "thread_local (FIPS_service_indicator_update_state env (snd (pss_params_rejected pc pmd t s))) =
   thread_local (FIPS_service_indicator_update_state env s)"
  by (rule update_state_thread_local_cong) (simp add: pss_params_rejected_eq)

lemma evp_md_ctx_rsa_tail:
  "thread_local
     (case EVP_PKEY_CTX_get_rsa_padding (pctx ctx) s of
        (None, s2) \<Rightarrow> s2
      | (Some padding, s2) \<Rightarrow>
          if padding = RSA_PKCS1_PSS_PADDING then
            (case pss_params_rejected (pctx ctx) pctx_md t s2 of
               (True, s3) \<Rightarrow> s3
             | (False, s3) \<Rightarrow> rsa_size_check env ctx r m t s3)
          else rsa_size_check env ctx r m t s2) =
   (if (case snd (rsa_padding (pctx ctx)) of
          None \<Rightarrow> False
        | Some padding \<Rightarrow>
            (padding = RSA_PKCS1_PSS_PADDING \<longrightarrow> pss_params_ok (pctx ctx) pctx_md t) \<and>
            m t \<and>
            ((r \<and> pkey_size (pkey (pctx ctx)) = 128) \<or> pkey_size (pkey (pctx ctx)) = 256 \<or>
             pkey_size (pkey (pctx ctx)) = 384 \<or> pkey_size (pkey (pctx ctx)) = 512))
    then thread_local (FIPS_service_indicator_update_state env s) else thread_local s)"
proof (cases "snd (rsa_padding (pctx ctx))")
  case None
  then show ?thesis
    by (simp add: EVP_PKEY_CTX_get_rsa_padding_def run_probe_def)
next
  case (Some padding)
  show ?thesis
  proof (cases "padding = RSA_PKCS1_PSS_PADDING")
    case True
    with Some show ?thesis
      apply (simp add: EVP_PKEY_CTX_get_rsa_padding_def run_probe_def pss_params_rejected_case
            pss_params_rejected_eq rsa_size_check_thread_local update_state_after_pss_probe
            update_state_ignores_err_queue)
      apply blast
      done
  next
    case False
    with Some show ?thesis
      apply (simp add: EVP_PKEY_CTX_get_rsa_padding_def run_probe_def
            rsa_size_check_thread_local update_state_ignores_err_queue)
      apply blast
      done
  qed
qed


lemma evp_md_ctx_thread_local:
  "thread_local (evp_md_ctx_verify_service_indicator env ctx r m s) =
     (if evp_md_ctx_approved ctx r m
      then thread_local (FIPS_service_indicator_update_state env s) else thread_local s)"
proof (cases "digest ctx")
  case None
  then show ?thesis
    by (simp add: evp_md_ctx_verify_service_indicator_def evp_md_ctx_approved_def
          ERR_clear_error_def EVP_MD_CTX_md_def)
next
  case (Some md)
  show ?thesis
  proof (cases "pkey_type (pkey (pctx ctx)) = EVP_PKEY_RSA \<or> pkey_type (pkey (pctx ctx)) = EVP_PKEY_RSA_PSS")
    case False
    with Some show ?thesis
      by (simp add: evp_md_ctx_verify_service_indicator_def evp_md_ctx_approved_def
          ERR_clear_error_def EVP_MD_CTX_md_def EVP_PKEY_CTX_get0_pkey_def EVP_PKEY_id_def
          EC_GROUP_get_curve_name_def Let_def)
  next
    case True
    show ?thesis
    proof (cases "snd (signature_md (pctx ctx))")
      case None
      with Some True show ?thesis
        by (simp add: evp_md_ctx_verify_service_indicator_def evp_md_ctx_approved_def
          ERR_clear_error_def EVP_MD_CTX_md_def EVP_PKEY_CTX_get0_pkey_def EVP_PKEY_id_def
          EVP_PKEY_CTX_get_signature_md_def Let_def run_probe_def)
    next
      case pmd: (Some pctx_md)
      show ?thesis
      proof (cases "EVP_MD_type pctx_md = EVP_MD_type md")
        case False
        with Some True pmd show ?thesis
          by (simp add: evp_md_ctx_verify_service_indicator_def evp_md_ctx_approved_def
            ERR_clear_error_def EVP_MD_CTX_md_def EVP_PKEY_CTX_get0_pkey_def EVP_PKEY_id_def
            EVP_PKEY_CTX_get_signature_md_def Let_def run_probe_def)
      next
        case same: True
        from Some True pmd same show ?thesis
          by (simp add: evp_md_ctx_verify_service_indicator_def evp_md_ctx_approved_def
            ERR_clear_error_def EVP_MD_CTX_md_def EVP_PKEY_CTX_get0_pkey_def EVP_PKEY_id_def
            EVP_PKEY_CTX_get_signature_md_def Let_def run_probe_def evp_md_ctx_rsa_tail
            update_state_ignores_err_queue)
      qed
    qed
  qed
qed


lemma int_of_size_t_small: "n < 2 ^ 31 \<Longrightarrow> int_of_size_t n = int n"
  unfolding int_of_size_t_def
  by (simp add: signed_of_nat signed_take_bit_int_eq_self)



lemma evp_md_ctx_not_approved:
  "\<not> evp_md_ctx_approved ctx r m \<Longrightarrow>
   thread_local (evp_md_ctx_verify_service_indicator env ctx r m s) = thread_local s \<and>
   approval_counter (evp_md_ctx_verify_service_indicator env ctx r m s) = approval_counter s"
  by (simp add: evp_md_ctx_thread_local approval_counter_def)

lemma evp_md_ctx_changed_approved:
  assumes "thread_local (evp_md_ctx_verify_service_indicator env ctx r m s) \<noteq> thread_local s \<or>
           approval_counter (evp_md_ctx_verify_service_indicator env ctx r m s) \<noteq> approval_counter s"
  shows "evp_md_ctx_approved ctx r m"
  using assms evp_md_ctx_not_approved [of ctx r m env s] by blast

lemma evp_md_ctx_approved_counter:
  assumes "evp_md_ctx_approved ctx r m"
      and "service_indicator_get env s = (Some indicator, s1)" and "lock_state indicator = 0"
  shows "approval_counter (evp_md_ctx_verify_service_indicator env ctx r m s) = approval_counter s + 1"
proof -
  have "thread_local (evp_md_ctx_verify_service_indicator env ctx r m s) =
        thread_local (FIPS_service_indicator_update_state env s)"
    using assms(1) by (simp add: evp_md_ctx_thread_local)
  then have "approval_counter (evp_md_ctx_verify_service_indicator env ctx r m s) =
        approval_counter (FIPS_service_indicator_update_state env s)"
    by (rule approval_counter_cong)
  with update_state_counter [OF assms(2,3)] show ?thesis by simp
qed



lemma not_approved_no_digest: "digest ctx = None \<Longrightarrow> \<not> evp_md_ctx_approved ctx r m"
  by (simp add: evp_md_ctx_approved_def)

lemma approved_rsaD:
  assumes "evp_md_ctx_approved ctx r m"
      and "pkey_type (pkey (pctx ctx)) = EVP_PKEY_RSA \<or> pkey_type (pkey (pctx ctx)) = EVP_PKEY_RSA_PSS"
  shows "\<exists>md pctx_md padding.
           digest ctx = Some md \<and> snd (signature_md (pctx ctx)) = Some pctx_md \<and>
           EVP_MD_type pctx_md = EVP_MD_type md \<and>
           snd (rsa_padding (pctx ctx)) = Some padding \<and>
           (padding = RSA_PKCS1_PSS_PADDING \<longrightarrow> pss_params_ok (pctx ctx) pctx_md (EVP_MD_type md)) \<and>
           m (EVP_MD_type md) \<and>
           ((r \<and> pkey_size (pkey (pctx ctx)) = 128) \<or> pkey_size (pkey (pctx ctx)) = 256 \<or>
            pkey_size (pkey (pctx ctx)) = 384 \<or> pkey_size (pkey (pctx ctx)) = 512)"
proof (cases "digest ctx")
  case None
  with assms(1) show ?thesis by (simp add: evp_md_ctx_approved_def)
next
  case (Some md)
  show ?thesis
  proof (cases "snd (signature_md (pctx ctx))")
    case None
    with Some assms show ?thesis by (simp add: evp_md_ctx_approved_def)
  next
    case pmd: (Some pctx_md)
    show ?thesis
    proof (cases "snd (rsa_padding (pctx ctx))")
      case None
      with Some pmd assms show ?thesis by (simp add: evp_md_ctx_approved_def)
    next
      case pad: (Some padding)
      with Some pmd assms show ?thesis by (simp add: evp_md_ctx_approved_def)
    qed
  qed
qed

lemma pss_params_okD:
  assumes "pss_params_ok pc pctx_md t"
  shows "\<exists>salt_len mgf1_md.
           snd (rsa_pss_saltlen pc) = Some salt_len \<and> snd (rsa_mgf1_md pc) = Some mgf1_md \<and>
           (salt_len = - 1 \<or> salt_len = int_of_size_t (EVP_MD_size pctx_md)) \<and>
           EVP_MD_type mgf1_md = t"
proof (cases "snd (rsa_pss_saltlen pc)")
  case None
  with assms show ?thesis by (simp add: pss_params_ok_def)
next
  case sl: (Some salt_len)
  show ?thesis
  proof (cases "snd (rsa_mgf1_md pc)")
    case None
    with sl assms show ?thesis by (simp add: pss_params_ok_def)
  next
    case (Some mgf1_md)
    with sl assms show ?thesis by (simp add: pss_params_ok_def)
  qed
qed


lemma not_approved_probe_failure:
  assumes "pkey_type (pkey (pctx ctx)) = EVP_PKEY_RSA \<or> pkey_type (pkey (pctx ctx)) = EVP_PKEY_RSA_PSS"
      and "snd (signature_md (pctx ctx)) = None \<or>
           snd (rsa_padding (pctx ctx)) = None \<or>
           snd (rsa_padding (pctx ctx)) = Some RSA_PKCS1_PSS_PADDING \<and>
           (snd (rsa_pss_saltlen (pctx ctx)) = None \<or> snd (rsa_mgf1_md (pctx ctx)) = None)"
  shows "\<not> evp_md_ctx_approved ctx r m"
proof
  assume "evp_md_ctx_approved ctx r m"
  from approved_rsaD [OF this assms(1)] obtain md pctx_md padding where
    a: "snd (signature_md (pctx ctx)) = Some pctx_md" "snd (rsa_padding (pctx ctx)) = Some padding"
       "padding = RSA_PKCS1_PSS_PADDING \<longrightarrow> pss_params_ok (pctx ctx) pctx_md (EVP_MD_type md)"
    by blast
  from assms(2) a(1,2) have p: "padding = RSA_PKCS1_PSS_PADDING"
    and f: "snd (rsa_pss_saltlen (pctx ctx)) = None \<or> snd (rsa_mgf1_md (pctx ctx)) = None"
    by auto
  from a(3) p have "pss_params_ok (pctx ctx) pctx_md (EVP_MD_type md)" by simp
  from pss_params_okD [OF this] f show False by auto
qed

text \<open>
  C8. In \<open>evp_md_ctx_verify_service_indicator\<close> (hence on the digest-sign and the
  digest-verify path) the error queue is empty when the function returns, whatever the
  probe or the caller left on it. A context with no bound digest is not approved, and for
  an RSA or RSA-PSS key (the only keys whose parameters the function retrieves) neither is
  one whose accessor for the signature digest, the padding mode or, under PSS padding,
  the salt length or the MGF1 digest fails: the indicator and its counter are unchanged.
\<close>

theorem probe_failure_not_approved_errors_cleared:
  "err_queue (evp_md_ctx_verify_service_indicator env ctx rsa_1024_ok md_ok s) = [] \<and>
   (digest ctx = None \<or>
    (pkey_type (pkey (pctx ctx)) = EVP_PKEY_RSA \<or> pkey_type (pkey (pctx ctx)) = EVP_PKEY_RSA_PSS) \<and>
    (snd (signature_md (pctx ctx)) = None \<or>
     snd (rsa_padding (pctx ctx)) = None \<or>
     snd (rsa_padding (pctx ctx)) = Some RSA_PKCS1_PSS_PADDING \<and>
     (snd (rsa_pss_saltlen (pctx ctx)) = None \<or> snd (rsa_mgf1_md (pctx ctx)) = None))
    \<longrightarrow>
      thread_local (evp_md_ctx_verify_service_indicator env ctx rsa_1024_ok md_ok s) = thread_local s \<and>
      approval_counter (evp_md_ctx_verify_service_indicator env ctx rsa_1024_ok md_ok s) =
        approval_counter s)"
proof (intro conjI impI)
  show "err_queue (evp_md_ctx_verify_service_indicator env ctx rsa_1024_ok md_ok s) = []"
    by (rule evp_md_ctx_err_queue)
next
  assume h: "digest ctx = None \<or>
    (pkey_type (pkey (pctx ctx)) = EVP_PKEY_RSA \<or> pkey_type (pkey (pctx ctx)) = EVP_PKEY_RSA_PSS) \<and>
    (snd (signature_md (pctx ctx)) = None \<or>
     snd (rsa_padding (pctx ctx)) = None \<or>
     snd (rsa_padding (pctx ctx)) = Some RSA_PKCS1_PSS_PADDING \<and>
     (snd (rsa_pss_saltlen (pctx ctx)) = None \<or> snd (rsa_mgf1_md (pctx ctx)) = None))"
  have n: "\<not> evp_md_ctx_approved ctx rsa_1024_ok md_ok"
    using h not_approved_no_digest [of ctx rsa_1024_ok md_ok]
      not_approved_probe_failure [of ctx rsa_1024_ok md_ok]
    by blast
  from evp_md_ctx_not_approved [OF n, of env s]
  show "thread_local (evp_md_ctx_verify_service_indicator env ctx rsa_1024_ok md_ok s) = thread_local s"
    and "approval_counter (evp_md_ctx_verify_service_indicator env ctx rsa_1024_ok md_ok s) =
        approval_counter s"
    by simp_all
qed


lemma rsa_sha256_ctx_simps:
  "digest (rsa_sha256_ctx padding saltlen n) = Some sha256"
  "pkey_type (pkey (pctx (rsa_sha256_ctx padding saltlen n))) = EVP_PKEY_RSA"
  "pkey_size (pkey (pctx (rsa_sha256_ctx padding saltlen n))) = n"
  "signature_md (pctx (rsa_sha256_ctx padding saltlen n)) = ([], Some sha256)"
  "rsa_padding (pctx (rsa_sha256_ctx padding saltlen n)) = ([], Some padding)"
  "rsa_pss_saltlen (pctx (rsa_sha256_ctx padding saltlen n)) = saltlen"
  "rsa_mgf1_md (pctx (rsa_sha256_ctx padding saltlen n)) = ([], Some sha256)"
  by (simp_all add: rsa_sha256_ctx_def)

lemma sha256_simps:
  "EVP_MD_type sha256 = NID_sha256" "EVP_MD_size sha256 = 32"
  "is_md_fips_approved_for_signing NID_sha256" "is_md_fips_approved_for_verifying NID_sha256"
  by (simp_all add: sha256_def EVP_MD_type_def EVP_MD_size_def
        is_md_fips_approved_for_signing_def is_md_fips_approved_for_verifying_def)

theorem probe_failure_not_approved_errors_cleared_witness:
  "err_queue (EVP_DigestSign_verify_service_indicator allocation_succeeds
      (rsa_sha256_ctx RSA_PKCS1_PSS_PADDING ([(ERR_LIB_other 4, ERR_R_other 1)], None) 256)
      \<lparr>thread_local = Some \<lparr>lock_state = 0, counter = 5\<rparr>,
       err_queue = [(ERR_LIB_other 9, ERR_R_other 2)]\<rparr>) = [] \<and>
   thread_local (EVP_DigestSign_verify_service_indicator allocation_succeeds
      (rsa_sha256_ctx RSA_PKCS1_PSS_PADDING ([(ERR_LIB_other 4, ERR_R_other 1)], None) 256)
      \<lparr>thread_local = Some \<lparr>lock_state = 0, counter = 5\<rparr>,
       err_queue = [(ERR_LIB_other 9, ERR_R_other 2)]\<rparr>) =
     Some \<lparr>lock_state = 0, counter = 5\<rparr>"
  using probe_failure_not_approved_errors_cleared
          [of allocation_succeeds
              "rsa_sha256_ctx RSA_PKCS1_PSS_PADDING ([(ERR_LIB_other 4, ERR_R_other 1)], None) 256"
              False is_md_fips_approved_for_signing
              "\<lparr>thread_local = Some \<lparr>lock_state = 0, counter = 5\<rparr>,
                err_queue = [(ERR_LIB_other 9, ERR_R_other 2)]\<rparr>"]
  by (simp add: EVP_DigestSign_verify_service_indicator_def rsa_sha256_ctx_simps)


lemma evp_md_ctx_pss_only_if:
  assumes "digest ctx = Some md"
      and "pkey_type (pkey (pctx ctx)) = EVP_PKEY_RSA \<or> pkey_type (pkey (pctx ctx)) = EVP_PKEY_RSA_PSS"
      and "snd (rsa_padding (pctx ctx)) = Some RSA_PKCS1_PSS_PADDING"
  shows "(\<exists>pctx_md salt_len mgf1_md.
            snd (signature_md (pctx ctx)) = Some pctx_md \<and>
            snd (rsa_pss_saltlen (pctx ctx)) = Some salt_len \<and>
            snd (rsa_mgf1_md (pctx ctx)) = Some mgf1_md \<and>
            (salt_len = - 1 \<or> salt_len = int_of_size_t (EVP_MD_size pctx_md)) \<and>
            (EVP_MD_size pctx_md < 2 ^ 31 \<longrightarrow> salt_len = - 1 \<or> salt_len = int (EVP_MD_size pctx_md)) \<and>
            EVP_MD_type mgf1_md = EVP_MD_type md) \<or>
         (thread_local (evp_md_ctx_verify_service_indicator env ctx r m s) = thread_local s \<and>
          approval_counter (evp_md_ctx_verify_service_indicator env ctx r m s) = approval_counter s)"
proof (cases "evp_md_ctx_approved ctx r m")
  case False
  from evp_md_ctx_not_approved [OF this] show ?thesis by blast
next
  case True
  from approved_rsaD [OF True assms(2)] assms(1,3) obtain pctx_md where
    a: "snd (signature_md (pctx ctx)) = Some pctx_md"
       "pss_params_ok (pctx ctx) pctx_md (EVP_MD_type md)"
    by auto
  from pss_params_okD [OF a(2)] obtain salt_len mgf1_md where
    b: "snd (rsa_pss_saltlen (pctx ctx)) = Some salt_len" "snd (rsa_mgf1_md (pctx ctx)) = Some mgf1_md"
       "salt_len = - 1 \<or> salt_len = int_of_size_t (EVP_MD_size pctx_md)"
       "EVP_MD_type mgf1_md = EVP_MD_type md"
    by blast
  from b(3) have "EVP_MD_size pctx_md < 2 ^ 31 \<longrightarrow> salt_len = - 1 \<or> salt_len = int (EVP_MD_size pctx_md)"
    by (auto simp add: int_of_size_t_small)
  with a(1) b show ?thesis by blast
qed

text \<open>
  C6. For a digest-sign or digest-verify context with a bound digest, an RSA or RSA-PSS
  key and PSS padding: either the salt length is unspecified (-1) or equal to the output
  length of the digest bound to the key context, and the MGF1 digest is the signing
  digest, or the operation is not approved: the indicator and its counter are unchanged.
  The code compares the salt length with the output length cast to \<open>int\<close>; for
  every length below \<open>2^31\<close> that is the length itself.
\<close>

theorem pss_salt_and_mgf1_required:
  assumes "digest ctx = Some md"
      and "pkey_type (pkey (pctx ctx)) = EVP_PKEY_RSA \<or> pkey_type (pkey (pctx ctx)) = EVP_PKEY_RSA_PSS"
      and "snd (rsa_padding (pctx ctx)) = Some RSA_PKCS1_PSS_PADDING"
  shows "\<forall>f \<in> {EVP_DigestSign_verify_service_indicator, EVP_DigestVerify_verify_service_indicator}.
           (\<exists>pctx_md salt_len mgf1_md.
              snd (signature_md (pctx ctx)) = Some pctx_md \<and>
              snd (rsa_pss_saltlen (pctx ctx)) = Some salt_len \<and>
              snd (rsa_mgf1_md (pctx ctx)) = Some mgf1_md \<and>
              (salt_len = - 1 \<or> salt_len = int_of_size_t (EVP_MD_size pctx_md)) \<and>
              (EVP_MD_size pctx_md < 2 ^ 31 \<longrightarrow> salt_len = - 1 \<or> salt_len = int (EVP_MD_size pctx_md)) \<and>
              EVP_MD_type mgf1_md = EVP_MD_type md) \<or>
           (thread_local (f env ctx s) = thread_local s \<and>
            approval_counter (f env ctx s) = approval_counter s)"
  using evp_md_ctx_pss_only_if [OF assms, of env False is_md_fips_approved_for_signing s]
        evp_md_ctx_pss_only_if [OF assms, of env True is_md_fips_approved_for_verifying s]
  unfolding EVP_DigestSign_verify_service_indicator_def EVP_DigestVerify_verify_service_indicator_def
  by (simp only: ball_simps bex_simps insert_iff empty_iff) blast


lemma rsa_sha256_ctx_approved:
  "evp_md_ctx_approved (rsa_sha256_ctx padding saltlen n) r m \<longleftrightarrow>
     (padding = RSA_PKCS1_PSS_PADDING \<longrightarrow> snd saltlen = Some (- 1) \<or> snd saltlen = Some 32) \<and>
     m NID_sha256 \<and> ((r \<and> n = 128) \<or> n = 256 \<or> n = 384 \<or> n = 512)"
  by (auto simp add: evp_md_ctx_approved_def pss_params_ok_def rsa_sha256_ctx_simps sha256_simps
        int_of_size_t_small split: option.splits)

text \<open>
  The scenario of the RSA-PSS signature: SHA-256, a modulus of 256 bytes, MGF1 with
  SHA-256. With salt length 16 it is not approved, with salt length 32 it is.
\<close>

theorem pss_salt_and_mgf1_required_witness:
  "thread_local (EVP_DigestSign_verify_service_indicator allocation_succeeds
      (rsa_sha256_ctx RSA_PKCS1_PSS_PADDING ([], Some 16) 256) fresh_thread) = thread_local fresh_thread \<and>
   approval_counter (EVP_DigestSign_verify_service_indicator allocation_succeeds
      (rsa_sha256_ctx RSA_PKCS1_PSS_PADDING ([], Some 16) 256) fresh_thread) = approval_counter fresh_thread \<and>
   approval_counter (EVP_DigestSign_verify_service_indicator allocation_succeeds
      (rsa_sha256_ctx RSA_PKCS1_PSS_PADDING ([], Some 32) 256) fresh_thread) = approval_counter fresh_thread + 1"
proof -
  let ?ctx = "rsa_sha256_ctx RSA_PKCS1_PSS_PADDING ([], Some 16) 256"
  have no: "\<not> (\<exists>pctx_md salt_len mgf1_md.
              snd (signature_md (pctx ?ctx)) = Some pctx_md \<and>
              snd (rsa_pss_saltlen (pctx ?ctx)) = Some salt_len \<and>
              snd (rsa_mgf1_md (pctx ?ctx)) = Some mgf1_md \<and>
              (salt_len = - 1 \<or> salt_len = int_of_size_t (EVP_MD_size pctx_md)) \<and>
              (EVP_MD_size pctx_md < 2 ^ 31 \<longrightarrow> salt_len = - 1 \<or> salt_len = int (EVP_MD_size pctx_md)) \<and>
              EVP_MD_type mgf1_md = EVP_MD_type sha256)"
    by (simp add: rsa_sha256_ctx_simps sha256_simps)
  have "digest ?ctx = Some sha256"
    and "pkey_type (pkey (pctx ?ctx)) = EVP_PKEY_RSA \<or> pkey_type (pkey (pctx ?ctx)) = EVP_PKEY_RSA_PSS"
    and "snd (rsa_padding (pctx ?ctx)) = Some RSA_PKCS1_PSS_PADDING"
    by (simp_all add: rsa_sha256_ctx_simps)
  from pss_salt_and_mgf1_required [OF this, of allocation_succeeds fresh_thread] no
  have a: "thread_local (EVP_DigestSign_verify_service_indicator allocation_succeeds ?ctx fresh_thread) =
             thread_local fresh_thread \<and>
           approval_counter (EVP_DigestSign_verify_service_indicator allocation_succeeds ?ctx fresh_thread) =
             approval_counter fresh_thread"
    by blast
  have "evp_md_ctx_approved (rsa_sha256_ctx RSA_PKCS1_PSS_PADDING ([], Some 32) 256) False
          is_md_fips_approved_for_signing"
    by (simp add: rsa_sha256_ctx_approved sha256_simps)
  from evp_md_ctx_approved_counter [OF this service_indicator_get_fresh]
  have b: "approval_counter (EVP_DigestSign_verify_service_indicator allocation_succeeds
      (rsa_sha256_ctx RSA_PKCS1_PSS_PADDING ([], Some 32) 256) fresh_thread) = approval_counter fresh_thread + 1"
    by (simp add: EVP_DigestSign_verify_service_indicator_def)
  from a b show ?thesis by blast
qed

lemma evp_md_ctx_rsa_size_only_if:
  assumes "pkey_type (pkey (pctx ctx)) = EVP_PKEY_RSA \<or> pkey_type (pkey (pctx ctx)) = EVP_PKEY_RSA_PSS"
      and "thread_local (evp_md_ctx_verify_service_indicator env ctx r m s) \<noteq> thread_local s \<or>
           approval_counter (evp_md_ctx_verify_service_indicator env ctx r m s) \<noteq> approval_counter s"
  shows "(r \<and> EVP_PKEY_size (pkey (pctx ctx)) = 128) \<or>
         EVP_PKEY_size (pkey (pctx ctx)) \<in> {256, 384, 512}"
  using approved_rsaD [OF evp_md_ctx_changed_approved [OF assms(2)] assms(1)]
  by (auto simp add: EVP_PKEY_size_def)

lemma evp_md_ctx_rsa_size_iff:
  assumes "pkey_type (pkey (pctx ctx)) = EVP_PKEY_RSA \<or> pkey_type (pkey (pctx ctx)) = EVP_PKEY_RSA_PSS"
      and "digest ctx = Some md" and "snd (signature_md (pctx ctx)) = Some pctx_md"
      and "EVP_MD_type pctx_md = EVP_MD_type md" and "snd (rsa_padding (pctx ctx)) = Some padding"
      and "padding = RSA_PKCS1_PSS_PADDING \<longrightarrow> pss_params_ok (pctx ctx) pctx_md (EVP_MD_type md)"
      and "service_indicator_get env s = (Some indicator, s1)" and "lock_state indicator = STATE_UNLOCKED"
      and "m (EVP_MD_type md)"
  shows "approval_counter (evp_md_ctx_verify_service_indicator env ctx r m s) = approval_counter s + 1
         \<longleftrightarrow> (r \<and> EVP_PKEY_size (pkey (pctx ctx)) = 128) \<or>
             EVP_PKEY_size (pkey (pctx ctx)) \<in> {256, 384, 512}"
proof -
  have ap: "evp_md_ctx_approved ctx r m \<longleftrightarrow>
              (r \<and> EVP_PKEY_size (pkey (pctx ctx)) = 128) \<or>
              EVP_PKEY_size (pkey (pctx ctx)) \<in> {256, 384, 512}"
    using assms(1-6,9) by (auto simp add: evp_md_ctx_approved_def EVP_PKEY_size_def)
  show ?thesis
  proof (cases "evp_md_ctx_approved ctx r m")
    case True
    from evp_md_ctx_approved_counter [OF True assms(7)] assms(8) True ap
    show ?thesis by (simp add: STATE_UNLOCKED_def)
  next
    case False
    from evp_md_ctx_not_approved [OF False, of env s] False ap
    show ?thesis by simp
  qed
qed


text \<open>
  C7. For an RSA or RSA-PSS key, the signing path approves only with a modulus of 256, 384
  or 512 bytes and the verification path only with 128, 256, 384 or 512 bytes. Where
  every other check passes (the digests agree and are approved for the path, the padding
  parameters are accepted, the store is available and unlocked), the counter is
  incremented exactly for these sizes: 128 bytes on the verification path only.
\<close>

theorem rsa_modulus_size_rule:
  assumes "pkey_type (pkey (pctx ctx)) = EVP_PKEY_RSA \<or> pkey_type (pkey (pctx ctx)) = EVP_PKEY_RSA_PSS"
  shows "(thread_local (EVP_DigestSign_verify_service_indicator env ctx s) \<noteq> thread_local s \<or>
          approval_counter (EVP_DigestSign_verify_service_indicator env ctx s) \<noteq> approval_counter s
          \<longrightarrow> EVP_PKEY_size (pkey (pctx ctx)) \<in> {256, 384, 512}) \<and>
         (thread_local (EVP_DigestVerify_verify_service_indicator env ctx s) \<noteq> thread_local s \<or>
          approval_counter (EVP_DigestVerify_verify_service_indicator env ctx s) \<noteq> approval_counter s
          \<longrightarrow> EVP_PKEY_size (pkey (pctx ctx)) \<in> {128, 256, 384, 512}) \<and>
         (digest ctx = Some md \<and> snd (signature_md (pctx ctx)) = Some pctx_md \<and>
          EVP_MD_type pctx_md = EVP_MD_type md \<and> snd (rsa_padding (pctx ctx)) = Some padding \<and>
          (padding = RSA_PKCS1_PSS_PADDING \<longrightarrow> pss_params_ok (pctx ctx) pctx_md (EVP_MD_type md)) \<and>
          service_indicator_get env s = (Some indicator, s1) \<and> lock_state indicator = STATE_UNLOCKED
          \<longrightarrow>
            (is_md_fips_approved_for_signing (EVP_MD_type md) \<longrightarrow>
               (approval_counter (EVP_DigestSign_verify_service_indicator env ctx s) = approval_counter s + 1
                \<longleftrightarrow> EVP_PKEY_size (pkey (pctx ctx)) \<in> {256, 384, 512})) \<and>
            (is_md_fips_approved_for_verifying (EVP_MD_type md) \<longrightarrow>
               (approval_counter (EVP_DigestVerify_verify_service_indicator env ctx s) = approval_counter s + 1
                \<longleftrightarrow> EVP_PKEY_size (pkey (pctx ctx)) \<in> {128, 256, 384, 512})))"
proof (intro conjI impI)
  assume "thread_local (EVP_DigestSign_verify_service_indicator env ctx s) \<noteq> thread_local s \<or>
          approval_counter (EVP_DigestSign_verify_service_indicator env ctx s) \<noteq> approval_counter s"
  then show "EVP_PKEY_size (pkey (pctx ctx)) \<in> {256, 384, 512}"
    using evp_md_ctx_rsa_size_only_if [OF assms, of env False is_md_fips_approved_for_signing s]
    by (simp add: EVP_DigestSign_verify_service_indicator_def)
next
  assume "thread_local (EVP_DigestVerify_verify_service_indicator env ctx s) \<noteq> thread_local s \<or>
          approval_counter (EVP_DigestVerify_verify_service_indicator env ctx s) \<noteq> approval_counter s"
  then show "EVP_PKEY_size (pkey (pctx ctx)) \<in> {128, 256, 384, 512}"
    using evp_md_ctx_rsa_size_only_if [OF assms, of env True is_md_fips_approved_for_verifying s]
    by (simp add: EVP_DigestVerify_verify_service_indicator_def)
next
  assume h: "digest ctx = Some md \<and> snd (signature_md (pctx ctx)) = Some pctx_md \<and>
          EVP_MD_type pctx_md = EVP_MD_type md \<and> snd (rsa_padding (pctx ctx)) = Some padding \<and>
          (padding = RSA_PKCS1_PSS_PADDING \<longrightarrow> pss_params_ok (pctx ctx) pctx_md (EVP_MD_type md)) \<and>
          service_indicator_get env s = (Some indicator, s1) \<and> lock_state indicator = STATE_UNLOCKED"
     and m: "is_md_fips_approved_for_signing (EVP_MD_type md)"
  from h m evp_md_ctx_rsa_size_iff
         [OF assms, of md pctx_md padding env s indicator s1 is_md_fips_approved_for_signing False]
  show "approval_counter (EVP_DigestSign_verify_service_indicator env ctx s) = approval_counter s + 1
        \<longleftrightarrow> EVP_PKEY_size (pkey (pctx ctx)) \<in> {256, 384, 512}"
    by (simp add: EVP_DigestSign_verify_service_indicator_def)
next
  assume h: "digest ctx = Some md \<and> snd (signature_md (pctx ctx)) = Some pctx_md \<and>
          EVP_MD_type pctx_md = EVP_MD_type md \<and> snd (rsa_padding (pctx ctx)) = Some padding \<and>
          (padding = RSA_PKCS1_PSS_PADDING \<longrightarrow> pss_params_ok (pctx ctx) pctx_md (EVP_MD_type md)) \<and>
          service_indicator_get env s = (Some indicator, s1) \<and> lock_state indicator = STATE_UNLOCKED"
     and m: "is_md_fips_approved_for_verifying (EVP_MD_type md)"
  from h m evp_md_ctx_rsa_size_iff
         [OF assms, of md pctx_md padding env s indicator s1 is_md_fips_approved_for_verifying True]
  show "approval_counter (EVP_DigestVerify_verify_service_indicator env ctx s) = approval_counter s + 1
        \<longleftrightarrow> EVP_PKEY_size (pkey (pctx ctx)) \<in> {128, 256, 384, 512}"
    by (simp add: EVP_DigestVerify_verify_service_indicator_def)
qed


theorem rsa_modulus_size_rule_witness:
  "approval_counter (EVP_DigestSign_verify_service_indicator allocation_succeeds
      (rsa_sha256_ctx RSA_PKCS1_PADDING ([], None) 256) fresh_thread) = approval_counter fresh_thread + 1 \<and>
   approval_counter (EVP_DigestSign_verify_service_indicator allocation_succeeds
      (rsa_sha256_ctx RSA_PKCS1_PADDING ([], None) 128) fresh_thread) \<noteq> approval_counter fresh_thread + 1 \<and>
   approval_counter (EVP_DigestVerify_verify_service_indicator allocation_succeeds
      (rsa_sha256_ctx RSA_PKCS1_PADDING ([], None) 128) fresh_thread) = approval_counter fresh_thread + 1 \<and>
   approval_counter (EVP_DigestVerify_verify_service_indicator allocation_succeeds
      (rsa_sha256_ctx RSA_PKCS1_PADDING ([], None) 192) fresh_thread) \<noteq> approval_counter fresh_thread + 1"
proof -
  have pad: "RSA_PKCS1_PADDING \<noteq> RSA_PKCS1_PSS_PADDING"
    by (simp add: RSA_PKCS1_PADDING_def RSA_PKCS1_PSS_PADDING_def)
  have u: "lock_state \<lparr>lock_state = 0, counter = 0\<rparr> = STATE_UNLOCKED"
    by (simp add: STATE_UNLOCKED_def)
  have i: "(approval_counter (EVP_DigestSign_verify_service_indicator allocation_succeeds
               (rsa_sha256_ctx RSA_PKCS1_PADDING ([], None) n) fresh_thread) = approval_counter fresh_thread + 1
            \<longleftrightarrow> n \<in> {256, 384, 512}) \<and>
           (approval_counter (EVP_DigestVerify_verify_service_indicator allocation_succeeds
               (rsa_sha256_ctx RSA_PKCS1_PADDING ([], None) n) fresh_thread) = approval_counter fresh_thread + 1
            \<longleftrightarrow> n \<in> {128, 256, 384, 512})" for n
    using rsa_modulus_size_rule
            [of "rsa_sha256_ctx RSA_PKCS1_PADDING ([], None) n" allocation_succeeds fresh_thread
                sha256 sha256 RSA_PKCS1_PADDING "\<lparr>lock_state = 0, counter = 0\<rparr>"
                "\<lparr>thread_local = Some \<lparr>lock_state = 0, counter = 0\<rparr>, err_queue = []\<rparr>"]
          pad u service_indicator_get_fresh
    by (simp add: rsa_sha256_ctx_simps sha256_simps EVP_PKEY_size_def)
  from i [of 256] i [of 128] i [of 192] show ?thesis by simp
qed


section \<open>Monotonicity of the counter\<close>

















end
